theory Spec2Isabelle
  imports Complex_Main
begin

section \<open>The interview page (frontend/src/app/interview/page.tsx)\<close>

text \<open>
  The page is a React component: eight \<open>useState\<close> cells, three effects and a handful
  of handlers. The handlers do not return values, they set state cells and schedule
  callbacks (\<open>fetch\<close>, \<open>setTimeout\<close>, \<open>setInterval\<close>). The model is a record of the
  state cells together with what the JavaScript runtime holds for the page (the clock, the
  pending request, the pending timers, the console), and one function per handler and per
  callback that returns the updated record.
\<close>

subsection \<open>Strings of numbers\<close>

text \<open>
  \<open>String(n)\<close> and \<open>n.toString()\<close> for a non-negative integer \<open>n\<close> that a double holds
  exactly and prints in full, which every safe integer is (\<open>n < 2\<^sup>5\<^sup>3\<close>): its decimal
  digits. The page applies them to array lengths plus one, which are below \<open>2\<^sup>3\<^sup>2\<close>, and to
  the two fields of \<open>formatTime\<close> below. Larger numbers print rounded, and from \<open>10\<^sup>2\<^sup>1\<close> on
  with an exponent; \<open>toString\<close> says nothing about the source there.
\<close>

fun digit :: "nat \<Rightarrow> char" where
  "digit n = ''0123456789'' ! n"

fun toString :: "nat \<Rightarrow> string" where
  "toString n = (if n < 10 then [digit n] else toString (n div 10) @ [digit (n mod 10)])"

declare toString.simps [simp del]

text \<open>
  \<open>s.padStart(targetLength, padString)\<close>: the pad string is repeated and cut to the
  missing length; nothing is ever cut from \<open>s\<close> itself.
\<close>

definition padStart :: "string \<Rightarrow> nat \<Rightarrow> string \<Rightarrow> string" where
  "padStart s targetLength padString =
     (if targetLength \<le> length s \<or> padString = [] then s
      else take (targetLength - length s)
             (concat (replicate (targetLength - length s) padString)) @ s)"

text \<open>
  \<open>formatTime\<close> (lines 156-160). \<open>seconds\<close> is a JavaScript number, a double; the page
  passes the \<open>time\<close> cell, a count of interval ticks from 0. The model takes a natural
  number and follows the source on the safe integers, up to \<open>Number.MAX_SAFE_INTEGER\<close>.
  There the doubles are exact: \<open>seconds / 60\<close> is below \<open>2\<^sup>4\<^sup>8\<close>, where doubles lie at most
  \<open>1/32\<close> apart, so the quotient is rounded by at most \<open>1/64\<close>, less than the \<open>1/60\<close> it
  would take to reach the next integer, and \<open>Math.floor\<close> gives \<open>seconds div 60\<close>
  (lemma \<open>floor_rounded_quotient\<close> below); \<open>seconds % 60\<close> is exact; and both fields
  print in full. Beyond the safe integers the quotient rounds to other integers and the
  digits are rounded too. The model does not follow the source there and says so with
  \<open>BeyondSafeIntegers\<close>, which is no value of the source's.
\<close>

definition MAX_SAFE_INTEGER :: nat where
  "MAX_SAFE_INTEGER = 2 ^ 53 - 1"

datatype unmodelled = BeyondSafeIntegers

definition formatTime :: "nat \<Rightarrow> unmodelled + string" where
  "formatTime seconds =
     (if MAX_SAFE_INTEGER < seconds then Inl BeyondSafeIntegers
      else
        let mins = seconds div 60;
            secs = seconds mod 60
        in Inr (padStart (toString mins) 2 ''0'' @ '':'' @ padStart (toString secs) 2 ''0''))"

text \<open>
  What the specification calls a two-digit zero-padded decimal: the tens digit followed
  by the units digit.
\<close>

definition two_digit :: "nat \<Rightarrow> string" where
  "two_digit n = [digit (n div 10), digit (n mod 10)]"

subsection \<open>Messages and scores\<close>

datatype role = User | Assistant

text \<open>\<open>interface Message\<close> (lines 9-14); a \<open>Date\<close> is its count of milliseconds.\<close>

record Message =
  id' :: string
  role :: role
  content :: string
  timestamp :: nat

text \<open>\<open>interface Score\<close> (lines 16-24); the literals are taken at their decimal value.\<close>

record Score =
  technical_accuracy :: real
  clarity :: real
  depth :: real
  confidence :: real
  communication :: real
  overall :: real
  feedback :: string

definition welcome_text :: string where
  "welcome_text = ''Hello! Welcome to your DSA viva. I'll be evaluating your understanding of data structures and algorithms. Let's begin with a fundamental question: Can you explain what a linked list is and how it differs from an array?''"

definition answer_text :: string where
  "answer_text = ''A linked list is a linear data structure where elements are stored in nodes. Each node contains data and a pointer to the next node. Unlike arrays, linked lists don't require contiguous memory allocation, which makes insertion and deletion more efficient at O(1) when you have the reference. However, accessing elements is O(n) compared to O(1) for arrays.''"

definition followup_text :: string where
  "followup_text = ''Good explanation! You've covered the key differences. Now, can you tell me about the different types of linked lists and when you might use each one?''"

definition feedback_text :: string where
  "feedback_text = ''Strong understanding of fundamentals. Consider discussing time/space complexity trade-offs more explicitly. Good clear communication style.''"

text \<open>The object literal of lines 145-153.\<close>

definition mock_score :: Score where
  "mock_score =
     \<lparr> technical_accuracy = 8.5, clarity = 7.8, depth = 7.2, confidence = 8.0,
       communication = 8.3, overall = 7.9, feedback = feedback_text \<rparr>"

subsection \<open>The page and the runtime around it\<close>

text \<open>
  The callbacks the page hands to the runtime: the \<open>setTimeout\<close> of line 79, the outer
  and the inner \<open>setTimeout\<close> of \<open>stopRecording\<close> (lines 112 and 126), and the
  \<open>setInterval\<close> of line 41.
\<close>

datatype callback = SpeakingDone | ProcessingDone | FollowUpDone | Tick

text \<open>
  The first eight fields are the \<open>useState\<close> cells of lines 28-35 with their names.
  \<open>now\<close> is the clock in milliseconds, \<open>fetchPending\<close> says that the request of
  \<open>startSession\<close> has not settled yet, \<open>timers\<close> holds the scheduled callbacks with
  their due times in the order they were scheduled, \<open>console\<close> is what
  \<open>console.error\<close> has printed.
\<close>

record InterviewPage =
  sessionId :: "string option"
  isRecording :: bool
  isProcessing :: bool
  isAISpeaking :: bool
  messages :: "Message list"
  score :: "Score option"
  sessionEnded :: bool
  time :: nat
  now :: nat
  fetchPending :: bool
  timers :: "(nat \<times> callback) list"
  console :: "string list"

text \<open>
  The page right after it is mounted: every cell at its initial value, and the effect of
  lines 54-56 has called \<open>startSession\<close>, whose request is on its way.
\<close>

definition mount :: InterviewPage where
  "mount =
     \<lparr> sessionId = None, isRecording = False, isProcessing = False, isAISpeaking = False,
       messages = [], score = None, sessionEnded = False, time = 0,
       now = 0, fetchPending = True, timers = [], console = [] \<rparr>"

text \<open>
  The timer effect (lines 39-46) runs again when \<open>sessionId\<close> or \<open>sessionEnded\<close> has
  changed: it clears its interval, and starts a new one when there is a session id
  (a non-empty string, the others are falsy) and the session has not ended.
\<close>

definition truthy :: "string option \<Rightarrow> bool" where
  "truthy sid = (case sid of None \<Rightarrow> False | Some str \<Rightarrow> str \<noteq> [])"

definition timerEffect :: "InterviewPage \<Rightarrow> InterviewPage \<Rightarrow> InterviewPage" where
  "timerEffect old new =
     (if sessionId old = sessionId new \<and> sessionEnded old = sessionEnded new then new
      else new\<lparr>timers :=
             filter (\<lambda>(due, c). c \<noteq> Tick) (timers new) @
             (if truthy (sessionId new) \<and> \<not> sessionEnded new
              then [(now new + 1000, Tick)] else [])\<rparr>)"

text \<open>
  \<open>startSession\<close> (lines 58-92) after its \<open>await\<close>: the request has answered with a
  success status and a session id, or with another status, or it has failed (\<open>fetch\<close>
  rejected, or the body was no JSON), which is the \<open>catch\<close> branch.
\<close>

datatype response = Ok string | NotOk | Failed

definition welcome_message :: "nat \<Rightarrow> Message" where
  "welcome_message t = \<lparr> id' = ''1'', role = Assistant, content = welcome_text, timestamp = t \<rparr>"

definition startSession :: "response \<Rightarrow> InterviewPage \<Rightarrow> InterviewPage" where
  "startSession res s =
     (case res of
        Ok session_id \<Rightarrow>
          timerEffect s
            (s\<lparr>sessionId := Some session_id,
               messages := [welcome_message (now s)],
               isAISpeaking := True,
               timers := timers s @ [(now s + 3000, SpeakingDone)]\<rparr>)
      | NotOk \<Rightarrow> s
      | Failed \<Rightarrow>
          timerEffect s
            (s\<lparr>console := console s @ [''Failed to start session:''],
               sessionId := Some ''demo-session'',
               messages := [welcome_message (now s)]\<rparr>))"

text \<open>Lines 94-139.\<close>

definition startRecording :: "InterviewPage \<Rightarrow> InterviewPage" where
  "startRecording s = s\<lparr>isRecording := True\<rparr>"

definition stopRecording :: "InterviewPage \<Rightarrow> InterviewPage" where
  "stopRecording s =
     s\<lparr>isRecording := False, isProcessing := True,
       timers := timers s @ [(now s + 1500, ProcessingDone)]\<rparr>"

definition toggleRecording :: "InterviewPage \<Rightarrow> InterviewPage" where
  "toggleRecording s = (if isRecording s then stopRecording s else startRecording s)"

text \<open>The callback of the outer timeout of \<open>stopRecording\<close> (lines 113-137).\<close>

definition processingDone :: "InterviewPage \<Rightarrow> InterviewPage" where
  "processingDone s =
     s\<lparr>messages := messages s @
         [\<lparr> id' = toString (length (messages s) + 1), role = User,
            content = answer_text, timestamp = now s \<rparr>],
       isProcessing := False,
       isAISpeaking := True,
       timers := timers s @ [(now s + 2000, FollowUpDone)]\<rparr>"

text \<open>The callback of the inner timeout (lines 127-136).\<close>

definition followUpDone :: "InterviewPage \<Rightarrow> InterviewPage" where
  "followUpDone s =
     s\<lparr>messages := messages s @
         [\<lparr> id' = toString (length (messages s) + 1), role = Assistant,
            content = followup_text, timestamp = now s \<rparr>],
       isAISpeaking := False\<rparr>"

text \<open>The callback of line 79.\<close>

definition speakingDone :: "InterviewPage \<Rightarrow> InterviewPage" where
  "speakingDone s = s\<lparr>isAISpeaking := False\<rparr>"

text \<open>The interval callback of line 42; the interval is due again a second later.\<close>

definition tick :: "InterviewPage \<Rightarrow> InterviewPage" where
  "tick s = s\<lparr>time := time s + 1, timers := timers s @ [(now s + 1000, Tick)]\<rparr>"

text \<open>\<open>endSession\<close> (lines 141-154).\<close>

definition endSession :: "InterviewPage \<Rightarrow> InterviewPage" where
  "endSession s = timerEffect s (s\<lparr>sessionEnded := True, score := Some mock_score\<rparr>)"

text \<open>
  \<open>endSession\<close> has no \<open>return\<close>: being \<open>async\<close>, it returns a promise of \<open>undefined\<close>,
  in every state. What a caller gets from it is no score.
\<close>

definition endSession_returns :: "InterviewPage \<Rightarrow> Score option" where
  "endSession_returns s = None"

subsection \<open>What the page renders\<close>

text \<open>
  The record button (lines 225-253) is rendered while the session has not ended and is
  disabled while \<open>isProcessing || isAISpeaking\<close>; a click on a button that is not there
  or is disabled calls nothing. The end button (lines 189-196) is rendered while the
  session has not ended.
\<close>

definition recordEnabled :: "InterviewPage \<Rightarrow> bool" where
  "recordEnabled s = (\<not> sessionEnded s \<and> \<not> (isProcessing s \<or> isAISpeaking s))"

definition clickRecord :: "InterviewPage \<Rightarrow> InterviewPage" where
  "clickRecord s = (if recordEnabled s then toggleRecording s else s)"

definition clickEnd :: "InterviewPage \<Rightarrow> InterviewPage" where
  "clickEnd s = (if sessionEnded s then s else endSession s)"

subsection \<open>The event loop\<close>

text \<open>
  The runtime runs one task at a time. The timer that is due first runs first, and of
  two timers due at the same time the one scheduled first.
\<close>

fun earliest :: "(nat \<times> callback) list \<Rightarrow> (nat \<times> callback) option" where
  "earliest [] = None"
| "earliest (x # xs) =
     (case earliest xs of
        None \<Rightarrow> Some x
      | Some y \<Rightarrow> if fst y < fst x then Some y else Some x)"

definition run_callback :: "callback \<Rightarrow> InterviewPage \<Rightarrow> InterviewPage" where
  "run_callback c s =
     (case c of
        SpeakingDone \<Rightarrow> speakingDone s
      | ProcessingDone \<Rightarrow> processingDone s
      | FollowUpDone \<Rightarrow> followUpDone s
      | Tick \<Rightarrow> tick s)"

text \<open>
  What can happen to the page: the request of \<open>startSession\<close> settles, the user clicks
  the record button or the end button, or the timer due first fires.
\<close>

datatype action = Settle response | ClickRecord | ClickEnd | Timeout

text \<open>
  The page's reaction to an action at clock time \<open>t\<close>. A settling without a pending
  request and a timeout without a timer change nothing.
\<close>

definition react :: "nat \<times> action \<Rightarrow> InterviewPage \<Rightarrow> InterviewPage" where
  "react ta s =
     (let s' = s\<lparr>now := fst ta\<rparr> in
      case snd ta of
        Settle res \<Rightarrow>
          if fetchPending s' then startSession res (s'\<lparr>fetchPending := False\<rparr>) else s'
      | ClickRecord \<Rightarrow> clickRecord s'
      | ClickEnd \<Rightarrow> clickEnd s'
      | Timeout \<Rightarrow>
          (case earliest (timers s') of
             None \<Rightarrow> s'
           | Some dc \<Rightarrow> run_callback (snd dc) (s'\<lparr>timers := remove1 dc (timers s')\<rparr>)))"

text \<open>
  A timeline is a list of timed actions. It is refused when it is not a possible history
  of the page: the clock runs backwards, a timer fires at another time than when it is
  due, an input is handled although a timer was due before it, or a request settles that
  was never sent.
\<close>

datatype error = BackInTime | TimerOverdue | NotDue | NoTimer | NoRequest

definition step :: "nat \<times> action \<Rightarrow> InterviewPage \<Rightarrow> error + InterviewPage" where
  "step ta s =
     (if fst ta < now s then Inl BackInTime
      else case snd ta of
        Timeout \<Rightarrow>
          (case earliest (timers s) of
             None \<Rightarrow> Inl NoTimer
           | Some dc \<Rightarrow> if fst dc = fst ta then Inr (react ta s) else Inl NotDue)
      | Settle res \<Rightarrow>
          (case earliest (timers s) of
             None \<Rightarrow> if fetchPending s then Inr (react ta s) else Inl NoRequest
           | Some dc \<Rightarrow>
               if fst dc < fst ta then Inl TimerOverdue
               else if fetchPending s then Inr (react ta s) else Inl NoRequest)
      | _ \<Rightarrow>
          (case earliest (timers s) of
             None \<Rightarrow> Inr (react ta s)
           | Some dc \<Rightarrow> if fst dc < fst ta then Inl TimerOverdue else Inr (react ta s)))"

fun run :: "(nat \<times> action) list \<Rightarrow> InterviewPage \<Rightarrow> error + InterviewPage" where
  "run [] s = Inr s"
| "run (ta # tas) s = (case step ta s of Inl e \<Rightarrow> Inl e | Inr s' \<Rightarrow> run tas s')"

text \<open>The pipeline turns in flight: the pending timeouts of \<open>stopRecording\<close>.\<close>

definition in_flight :: "InterviewPage \<Rightarrow> nat" where
  "in_flight s =
     length (filter (\<lambda>(due, c). c = ProcessingDone \<or> c = FollowUpDone) (timers s))"

text \<open>
  The aggregate as the specification defines it for equal weights: the arithmetic mean of
  the five sub-scores.
\<close>

definition spec_aggregate :: "Score \<Rightarrow> real" where
  "spec_aggregate sc =
     (technical_accuracy sc + clarity sc + depth sc + confidence sc + communication sc) / 5"

definition in_range :: "Score \<Rightarrow> bool" where
  "in_range sc =
     (0 \<le> technical_accuracy sc \<and> technical_accuracy sc \<le> 10 \<and>
      0 \<le> clarity sc \<and> clarity sc \<le> 10 \<and>
      0 \<le> depth sc \<and> depth sc \<le> 10 \<and>
      0 \<le> confidence sc \<and> confidence sc \<le> 10 \<and>
      0 \<le> communication sc \<and> communication sc \<le> 10 \<and>
      0 \<le> overall sc \<and> overall sc \<le> 10)"

subsection \<open>Transcripts and timelines\<close>

text \<open>Speakers take turns: no two neighbours of the sequence are the same speaker.\<close>

fun alternating :: "role list \<Rightarrow> bool" where
  "alternating [] = True"
| "alternating [r] = True"
| "alternating (r # r' # rs) = (r \<noteq> r' \<and> alternating (r' # rs))"

text \<open>The pending timeouts, that is every timer but the interval.\<close>

definition pending :: "InterviewPage \<Rightarrow> (nat \<times> callback) list" where
  "pending s = filter (\<lambda>dc. snd dc \<noteq> Tick) (timers s)"

text \<open>
  The states of a session that has started in order: the request has settled, the
  transcript begins with the interviewer and alternates, and the page is in one of four
  phases: the greeting is being spoken, the page waits for the student, a student turn is
  being processed, or the follow-up is being delivered.
\<close>

definition orderly :: "InterviewPage \<Rightarrow> bool" where
  "orderly s =
     (\<not> fetchPending s \<and>
      (\<exists>rs. map role (messages s) = Assistant # rs) \<and>
      alternating (map role (messages s)) \<and>
      ((\<exists>due. pending s = [(due, SpeakingDone)]) \<and> isAISpeaking s \<and> \<not> isProcessing s \<and>
         last (map role (messages s)) = Assistant
       \<or> pending s = [] \<and> \<not> isAISpeaking s \<and> \<not> isProcessing s \<and>
         last (map role (messages s)) = Assistant
       \<or> (\<exists>due. pending s = [(due, ProcessingDone)]) \<and> \<not> isAISpeaking s \<and> isProcessing s \<and>
         last (map role (messages s)) = Assistant
       \<or> (\<exists>due. pending s = [(due, FollowUpDone)]) \<and> isAISpeaking s \<and> \<not> isProcessing s \<and>
         last (map role (messages s)) = User))"

text \<open>
  Three timelines in which the student uses the record button before the request of
  \<open>startSession\<close> has brought a greeting. Nothing disables the button before that: all
  three flags of its guard start out false.

  \<open>late_settle\<close>: the student records from 1.0 s to 2.0 s after the page was mounted,
  the canned answer is appended at 3.5 s, and the backend answers at 4.0 s.
\<close>

definition late_settle :: "(nat \<times> action) list" where
  "late_settle =
     [(1000, ClickRecord), (2000, ClickRecord), (3500, Timeout),
      (4000, Settle (Ok ''abc123''))]"

text \<open>
  \<open>refused_start\<close>: the backend answers with an error status at 0.1 s, and the student
  then records one answer.
\<close>

definition refused_start :: "(nat \<times> action) list" where
  "refused_start =
     [(100, Settle NotOk), (1000, ClickRecord), (2000, ClickRecord), (3500, Timeout),
      (5500, Timeout)]"

text \<open>
  \<open>early_click\<close>: the student records from 1.0 s to 2.0 s, the backend answers at 2.1 s.
  The interval ticks at 3.1 s, 4.1 s and 5.1 s, the canned answer is appended at 3.5 s, and
  at 5.1 s the timer of the greeting fires, 0.4 s before the follow-up is due.
\<close>

definition early_click :: "(nat \<times> action) list" where
  "early_click =
     [(1000, ClickRecord), (2000, ClickRecord), (2100, Settle (Ok ''abc123'')),
      (3100, Timeout), (3500, Timeout), (4100, Timeout), (5100, Timeout), (5100, Timeout)]"

text \<open>
  A session in demo mode: the request fails at once, and the student records one answer
  from 2.0 s to 6.0 s; the interval ticks every second in between and after.
\<close>

definition demo_session :: "(nat \<times> action) list" where
  "demo_session =
     [(50, Settle Failed), (1050, Timeout), (2000, ClickRecord), (2050, Timeout),
      (3050, Timeout), (4050, Timeout), (5050, Timeout), (6000, ClickRecord),
      (6050, Timeout), (7050, Timeout), (7500, Timeout), (8050, Timeout), (9050, Timeout),
      (9500, Timeout)]"

section \<open>The elapsed-time formatter\<close>

lemma toString_small: "n < 10 \<Longrightarrow> toString n = [digit n]"
  by (simp add: toString.simps)

lemma toString_large: "10 \<le> n \<Longrightarrow> toString n = toString (n div 10) @ [digit (n mod 10)]"
  by (subst toString.simps) simp

lemma length_toString_large: "10 \<le> n \<Longrightarrow> 2 \<le> length (toString n)"
proof -
  assume h: "10 \<le> n"
  have "toString (n div 10) \<noteq> []"
    by (subst toString.simps) simp
  then have "1 \<le> length (toString (n div 10))"
    by (cases "toString (n div 10)") simp_all
  with h show ?thesis by (simp add: toString_large)
qed

lemma toString_two_digit: "10 \<le> n \<Longrightarrow> n < 100 \<Longrightarrow> toString n = two_digit n"
  by (simp add: toString_large toString_small two_digit_def)

lemma padStart_toString:
  "padStart (toString n) 2 ''0'' = (if n < 100 then two_digit n else toString n)"
proof (cases "n < 10")
  case True
  then show ?thesis
    by (simp add: padStart_def toString_small two_digit_def)
next
  case False
  then have "2 \<le> length (toString n)" by (simp add: length_toString_large)
  then have "padStart (toString n) 2 ''0'' = toString n" by (simp add: padStart_def)
  with False show ?thesis by (simp add: toString_two_digit)
qed

text \<open>
  Why the safe integers are safe: a double \<open>d\<close> that is not below the integer quotient
  (rounding is monotonic, and the quotient is a double itself) and lies within \<open>1/64\<close> of
  the exact quotient has the integer quotient as its floor.
\<close>

lemma floor_rounded_quotient:
  fixes d :: real
  assumes lo: "real (s div 60) \<le> d" and near: "\<bar>d - real s / 60\<bar> \<le> 1 / 64"
  shows "nat \<lfloor>d\<rfloor> = s div 60"
proof -
  have "s = 60 * (s div 60) + s mod 60" by simp
  then have "real s = 60 * real (s div 60) + real (s mod 60)"
    by (metis of_nat_add of_nat_mult of_nat_numeral)
  moreover have "real (s mod 60) \<le> 59"
  proof -
    have "s mod 60 < 60" by simp
    then have "s mod 60 \<le> 59" by arith
    then show ?thesis by (metis of_nat_le_iff of_nat_numeral)
  qed
  ultimately have q: "real s / 60 \<le> real (s div 60) + 59 / 60" by simp
  from near have "d - real s / 60 \<le> 1 / 64" by (rule abs_le_D1)
  with q have "d < real (s div 60) + 1" by linarith
  with lo have "\<lfloor>d\<rfloor> = int (s div 60)" by (simp add: floor_unique)
  then show ?thesis by simp
qed

text \<open>
  Claim C10, as the code has it. For every safe integer \<open>s\<close> (from 0 to
  \<open>Number.MAX_SAFE_INTEGER\<close>), \<open>formatTime s\<close> is the minutes \<open>s div 60\<close>, a colon, and
  the seconds \<open>s mod 60\<close>. The seconds are always two digits. The minutes are two digits
  while \<open>s < 6000\<close>; from 100 minutes on they are the full decimal number, which has three
  digits or more, because \<open>padStart\<close> pads and never cuts.
\<close>

theorem formatTime_fields:
  "s \<le> MAX_SAFE_INTEGER \<Longrightarrow>
   formatTime s =
     Inr ((if s < 6000 then two_digit (s div 60) else toString (s div 60)) @ '':'' @
          two_digit (s mod 60))"
proof -
  assume safe: "s \<le> MAX_SAFE_INTEGER"
  have m: "s div 60 < 100 \<longleftrightarrow> s < 6000" by arith
  have "s mod 60 < 100" by (rule less_trans [OF mod_less_divisor]) simp_all
  with safe show ?thesis by (simp add: formatTime_def Let_def padStart_toString m)
qed

theorem formatTime_fields_witness:
  "(125::nat) \<le> MAX_SAFE_INTEGER \<and> (5999::nat) \<le> MAX_SAFE_INTEGER \<and>
   (6000::nat) \<le> MAX_SAFE_INTEGER \<and> (9007199254740991::nat) \<le> MAX_SAFE_INTEGER \<and>
   formatTime 125 = Inr ''02:05'' \<and> formatTime 5999 = Inr ''99:59'' \<and>
   formatTime 6000 = Inr ''100:00'' \<and>
   formatTime 9007199254740991 = Inr ''150119987579016:31''"
proof -
  have a: "(125::nat) \<le> MAX_SAFE_INTEGER" and b: "(5999::nat) \<le> MAX_SAFE_INTEGER"
    and c: "(6000::nat) \<le> MAX_SAFE_INTEGER"
    and d: "(9007199254740991::nat) \<le> MAX_SAFE_INTEGER"
    by (simp_all add: MAX_SAFE_INTEGER_def)
  from formatTime_fields [OF a] have "formatTime 125 = Inr ''02:05''"
    by (simp add: two_digit_def)
  moreover from formatTime_fields [OF b] have "formatTime 5999 = Inr ''99:59''"
    by (simp add: two_digit_def)
  moreover from formatTime_fields [OF c] have "formatTime 6000 = Inr ''100:00''"
    by (simp add: two_digit_def toString.simps)
  moreover from formatTime_fields [OF d]
  have "formatTime 9007199254740991 = Inr ''150119987579016:31''"
    by (simp add: two_digit_def toString.simps)
  ultimately show ?thesis using a b c d by simp
qed

text \<open>
  The claim as it is written, two digits for the minutes at every \<open>s\<close>, fails at
  \<open>s = 6000\<close>: the page shows \<open>100:00\<close>.
\<close>

theorem formatTime_two_digit_counterexample:
  "formatTime 6000 = Inr ''100:00'' \<and>
   formatTime 6000 \<noteq> Inr (two_digit (6000 div 60) @ '':'' @ two_digit (6000 mod 60))"
proof -
  have a: "formatTime 6000 = Inr ''100:00''"
    by (simp add: formatTime_def MAX_SAFE_INTEGER_def padStart_def toString.simps)
  have "length ''100:00'' \<noteq>
        length (two_digit (6000 div 60) @ '':'' @ two_digit (6000 mod 60))"
    by (simp add: two_digit_def)
  then have "''100:00'' \<noteq> two_digit (6000 div 60) @ '':'' @ two_digit (6000 mod 60)"
    by metis
  with a show ?thesis by simp
qed

section \<open>Ending the session and the score\<close>

lemmas handlers =
  react_def startSession_def timerEffect_def truthy_def startRecording_def
  stopRecording_def toggleRecording_def processingDone_def followUpDone_def speakingDone_def
  tick_def endSession_def recordEnabled_def clickRecord_def clickEnd_def run_callback_def

lemma react_sessionEnded: "sessionEnded s \<Longrightarrow> sessionEnded (react ta s)"
  by (simp add: handlers Let_def
      split: action.splits option.splits response.splits callback.splits)

lemma fold_react_sessionEnded: "sessionEnded s \<Longrightarrow> sessionEnded (fold react tas s)"
  by (induction tas arbitrary: s) (simp_all add: react_sessionEnded)

lemma react_score: "score (react ta s) = score s \<or> score (react ta s) = Some mock_score"
  by (simp add: handlers Let_def
      split: action.splits option.splits response.splits callback.splits)

lemma fold_react_score:
  "score (fold react tas s) = score s \<or> score (fold react tas s) = Some mock_score"
proof (induction tas arbitrary: s)
  case Nil
  show ?case by simp
next
  case (Cons ta tas)
  from Cons.IH [of "react ta s"] react_score [of ta s] show ?case by auto
qed

lemma in_range_mock: "in_range mock_score"
  by (simp add: in_range_def mock_score_def)

text \<open>
  Claim C1, as the code has it. \<open>endSession\<close> stores a fixed score, whatever the session
  was: the sub-scores 8.5, 7.8, 7.2, 8.0 and 8.3 and the aggregate 7.9. The mean of the
  five sub-scores is 7.96, and so the aggregate lies 0.06 below the mean. (The literals
  are taken at their decimal value; as IEEE doubles each is off by less than a part in a
  million million, which leaves the gap where it is.)
\<close>

theorem endSession_overall_below_mean:
  "\<exists>sc. score (endSession s) = Some sc \<and>
        technical_accuracy sc = 8.5 \<and> clarity sc = 7.8 \<and> depth sc = 7.2 \<and>
        confidence sc = 8.0 \<and> communication sc = 8.3 \<and> overall sc = 7.9 \<and>
        spec_aggregate sc = 7.96 \<and> spec_aggregate sc - overall sc = 0.06"
  by (simp add: endSession_def timerEffect_def mock_score_def spec_aggregate_def)

text \<open>
  The claim as it is written, the aggregate equal to the mean up to rounding, fails for
  the score of a session ended right after the page was mounted (and of any other).
\<close>

theorem overall_is_not_the_mean:
  "\<bar>overall (the (score (endSession mount))) -
     spec_aggregate (the (score (endSession mount)))\<bar> = 3 / 50 \<and>
   \<not> \<bar>overall (the (score (endSession mount))) -
     spec_aggregate (the (score (endSession mount)))\<bar> \<le> 1 / 1000"
  by (simp add: endSession_def timerEffect_def mock_score_def spec_aggregate_def)

text \<open>
  Claim C2, as the code has it. From every state, \<open>endSession\<close> marks the session as
  ended and stores a score in the \<open>score\<close> cell; it returns none. The stored score is
  not computed from the session: it is the same literal in every state, with the
  sub-scores 8.5, 7.8, 7.2, 8.0 and 8.3, the aggregate 7.9 and a fixed feedback text.
  Ended is terminal: whatever happens to the page afterwards, in any order and at any
  time, the session stays ended.
\<close>

theorem endSession_stores_mock_score:
  "sessionEnded (endSession s) \<and>
   endSession_returns s = None \<and>
   score (endSession s) =
     Some \<lparr> technical_accuracy = 8.5, clarity = 7.8, depth = 7.2, confidence = 8.0,
            communication = 8.3, overall = 7.9,
            feedback = ''Strong understanding of fundamentals. Consider discussing time/space complexity trade-offs more explicitly. Good clear communication style.'' \<rparr> \<and>
   (\<forall>tas. sessionEnded (fold react tas (endSession s)))"
proof -
  have e: "sessionEnded (endSession s)" by (simp add: endSession_def timerEffect_def)
  have r: "endSession_returns s = None" by (simp add: endSession_returns_def)
  have "score (endSession s) = Some mock_score" by (simp add: endSession_def timerEffect_def)
  then have v: "score (endSession s) =
     Some \<lparr> technical_accuracy = 8.5, clarity = 7.8, depth = 7.2, confidence = 8.0,
            communication = 8.3, overall = 7.9,
            feedback = ''Strong understanding of fundamentals. Consider discussing time/space complexity trade-offs more explicitly. Good clear communication style.'' \<rparr>"
    by (simp add: mock_score_def feedback_text_def)
  from e have "\<forall>tas. sessionEnded (fold react tas (endSession s))"
    by (simp add: fold_react_sessionEnded)
  with e r v show ?thesis by simp
qed

text \<open>
  The claim as it is written, a computed score that is returned, fails for a session
  ended right after the page was mounted: nothing is returned, and the score that is
  stored is the one stored for a session with a different transcript.
\<close>

theorem endSession_returns_no_computed_score:
  "endSession_returns mount = None \<and>
   messages mount \<noteq> messages (mount\<lparr>messages := [welcome_message 0]\<rparr>) \<and>
   score (endSession mount) = score (endSession (mount\<lparr>messages := [welcome_message 0]\<rparr>))"
  by (simp add: endSession_returns_def endSession_def timerEffect_def mount_def)

text \<open>
  Claim C5. Two sessions with the same transcript get the same score, whatever else
  differs between them (session id, elapsed time, clock, flags). The page has no rubric
  weights, so there is nothing else the score could depend on.
\<close>

theorem scoring_deterministic:
  "messages s1 = messages s2 \<Longrightarrow> score (endSession s1) = score (endSession s2)"
  by (simp add: endSession_def timerEffect_def)

theorem scoring_deterministic_witness:
  "messages mount = messages (mount\<lparr>sessionId := Some ''abc123'', time := 7, now := 7000\<rparr>) \<and>
   score (endSession mount) =
     score (endSession (mount\<lparr>sessionId := Some ''abc123'', time := 7, now := 7000\<rparr>)) \<and>
   score (endSession mount) = Some mock_score"
  using scoring_deterministic
    [of mount "mount\<lparr>sessionId := Some ''abc123'', time := 7, now := 7000\<rparr>"]
  by (simp add: endSession_def timerEffect_def mount_def)

text \<open>
  Claim C6. Whatever happens to the page after it was mounted, a score it holds has its
  five sub-scores and its aggregate between 0 and 10.
\<close>

theorem score_in_range: "score (fold react tas mount) = Some sc \<Longrightarrow> in_range sc"
  using fold_react_score [of tas mount] in_range_mock by (auto simp: mount_def)

theorem score_in_range_witness:
  "score (fold react [(60000, ClickEnd)] mount) = Some mock_score \<and> in_range mock_score"
proof -
  have a: "score (fold react [(60000, ClickEnd)] mount) = Some mock_score"
    by (simp add: handlers mount_def)
  from score_in_range [OF a] a show ?thesis by simp
qed

section \<open>Starting the session and recording\<close>

text \<open>
  Claim C8. When the request fails, \<open>startSession\<close> sets the session id to
  \<open>demo-session\<close> and the transcript to the greeting alone, the same text the success
  branch uses. The failure goes to the console; no cell of the page changes that the
  page could render as an error: flags, score, ended mark and elapsed time stay as they
  were.
\<close>

theorem startSession_failed_demo_mode:
  "sessionId (startSession Failed s) = Some ''demo-session'' \<and>
   messages (startSession Failed s) = [welcome_message (now s)] \<and>
   map content (messages (startSession Failed s)) =
     map content (messages (startSession (Ok session_id) s)) \<and>
   map role (messages (startSession Failed s)) = [Assistant] \<and>
   console (startSession Failed s) = console s @ [''Failed to start session:''] \<and>
   score (startSession Failed s) = score s \<and>
   sessionEnded (startSession Failed s) = sessionEnded s \<and>
   isRecording (startSession Failed s) = isRecording s \<and>
   isProcessing (startSession Failed s) = isProcessing s \<and>
   isAISpeaking (startSession Failed s) = isAISpeaking s \<and>
   time (startSession Failed s) = time s"
  by (simp add: startSession_def timerEffect_def welcome_message_def)


text \<open>The same on the clock, in a session in demo mode.\<close>

lemma demo_session_transcript:
  "\<exists>s. run demo_session mount = Inr s \<and>
       messages s =
         [welcome_message 50,
          \<lparr> id' = ''2'', role = User, content = answer_text, timestamp = 7500 \<rparr>,
          \<lparr> id' = ''3'', role = Assistant, content = followup_text, timestamp = 9500 \<rparr>] \<and>
       time s = 9"
  by (simp add: demo_session_def step_def handlers mount_def toString.simps)

section \<open>Sessions that start in order\<close>

text \<open>
  When the request of \<open>startSession\<close> settles before anything else happens, with a
  session id or by failing, the page is orderly from then on, whatever the student does
  and whenever the timers fire.
\<close>

lemma earliest_mem: "earliest ts = Some dc \<Longrightarrow> dc \<in> set ts"
  by (induction ts arbitrary: dc) (auto split: option.splits if_splits)

lemma alternating_snoc:
  "alternating (rs @ [r]) = (alternating rs \<and> (rs = [] \<or> last rs \<noteq> r))"
  by (induction rs rule: alternating.induct) auto

lemma orderly_now: "orderly (s\<lparr>now := t\<rparr>) = orderly s"
  by (simp add: orderly_def pending_def)

lemma orderly_clickRecord: "orderly s \<Longrightarrow> orderly (clickRecord s)"
  by (auto simp: orderly_def pending_def clickRecord_def recordEnabled_def toggleRecording_def
      startRecording_def stopRecording_def)

lemma pending_timerEffect: "pending (timerEffect old new) = pending new"
  by (simp add: pending_def timerEffect_def case_prod_beta)

lemma timerEffect_cells:
  "messages (timerEffect old new) = messages new"
  "fetchPending (timerEffect old new) = fetchPending new"
  "isAISpeaking (timerEffect old new) = isAISpeaking new"
  "isProcessing (timerEffect old new) = isProcessing new"
  by (simp_all add: timerEffect_def)

lemma orderly_endSession: "orderly s \<Longrightarrow> orderly (endSession s)"
proof -
  assume o: "orderly s"
  have "pending (endSession s) = pending s"
    by (simp add: endSession_def pending_timerEffect) (simp add: pending_def)
  with o show ?thesis
    by (simp add: orderly_def) (simp add: endSession_def timerEffect_cells)
qed

lemma orderly_clickEnd: "orderly s \<Longrightarrow> orderly (clickEnd s)"
  by (simp add: clickEnd_def orderly_endSession)

lemma pending_remove1_Tick:
  "snd dc = Tick \<Longrightarrow>
   filter (\<lambda>dc. snd dc \<noteq> Tick) (remove1 dc ts) = filter (\<lambda>dc. snd dc \<noteq> Tick) ts"
  by (induction ts) auto

lemma pending_remove1_single:
  assumes "dc \<in> set ts" and "snd dc \<noteq> Tick"
    and one: "filter (\<lambda>dc. snd dc \<noteq> Tick) ts = [x]"
  shows "x = dc \<and> filter (\<lambda>dc. snd dc \<noteq> Tick) (remove1 dc ts) = []"
proof -
  from assms(1,2) have "dc \<in> set (filter (\<lambda>dc. snd dc \<noteq> Tick) ts)" by simp
  with one have x: "x = dc" by simp
  have "filter (\<lambda>dc. snd dc \<noteq> Tick) (remove1 dc ts) =
        remove1 dc (filter (\<lambda>dc. snd dc \<noteq> Tick) ts)"
    by (rule filter_remove1)
  with one x show ?thesis by simp
qed

lemma orderly_timeout:
  assumes o: "orderly s" and e: "earliest (timers s) = Some dc"
  shows "orderly (run_callback (snd dc) (s\<lparr>timers := remove1 dc (timers s)\<rparr>))"
proof (cases "snd dc = Tick")
  case True
  with o show ?thesis
    by (simp add: orderly_def pending_def run_callback_def tick_def pending_remove1_Tick)
next
  case False
  from e have m: "dc \<in> set (timers s)" by (rule earliest_mem)
  from o consider
      (speaking) due where "pending s = [(due, SpeakingDone)]"
    | (idle) "pending s = []"
    | (processing) due where "pending s = [(due, ProcessingDone)]"
    | (delivering) due where "pending s = [(due, FollowUpDone)]"
    by (auto simp: orderly_def)
  then show ?thesis
  proof cases
    case speaking
    with pending_remove1_single [OF m False, of "(due, SpeakingDone)"]
    have "dc = (due, SpeakingDone)"
      "filter (\<lambda>dc. snd dc \<noteq> Tick) (remove1 dc (timers s)) = []"
      by (simp_all add: pending_def)
    with o speaking show ?thesis
      by (auto simp: orderly_def pending_def run_callback_def speakingDone_def)
  next
    case idle
    with m False have False by (auto simp: pending_def filter_empty_conv)
    then show ?thesis ..
  next
    case processing
    with pending_remove1_single [OF m False, of "(due, ProcessingDone)"]
    have "dc = (due, ProcessingDone)"
      "filter (\<lambda>dc. snd dc \<noteq> Tick) (remove1 dc (timers s)) = []"
      by (simp_all add: pending_def)
    with o processing show ?thesis
      by (auto simp: orderly_def pending_def run_callback_def processingDone_def
          alternating_snoc)
  next
    case delivering
    with pending_remove1_single [OF m False, of "(due, FollowUpDone)"]
    have "dc = (due, FollowUpDone)"
      "filter (\<lambda>dc. snd dc \<noteq> Tick) (remove1 dc (timers s)) = []"
      by (simp_all add: pending_def)
    with o delivering show ?thesis
      by (auto simp: orderly_def pending_def run_callback_def followUpDone_def
          alternating_snoc)
  qed
qed

lemma orderly_react: "orderly s \<Longrightarrow> orderly (react ta s)"
proof -
  assume o: "orderly s"
  then have o': "orderly (s\<lparr>now := fst ta\<rparr>)" by (simp add: orderly_now)
  then have nf: "\<not> fetchPending (s\<lparr>now := fst ta\<rparr>)" by (simp add: orderly_def)
  show ?thesis
  proof (cases "snd ta")
    case (Settle res)
    with nf o' show ?thesis by (simp add: react_def Let_def)
  next
    case ClickRecord
    with orderly_clickRecord [OF o'] show ?thesis by (simp add: react_def Let_def)
  next
    case ClickEnd
    with orderly_clickEnd [OF o'] show ?thesis by (simp add: react_def Let_def)
  next
    case Timeout
    show ?thesis
    proof (cases "earliest (timers (s\<lparr>now := fst ta\<rparr>))")
      case None
      with Timeout o' show ?thesis by (simp add: react_def Let_def)
    next
      case (Some dc)
      from orderly_timeout [OF o' Some] Timeout Some show ?thesis
        by (simp add: react_def Let_def)
    qed
  qed
qed

lemma orderly_fold: "orderly s \<Longrightarrow> orderly (fold react tas s)"
  by (induction tas arbitrary: s) (simp_all add: orderly_react)

lemma orderly_start: "res \<noteq> NotOk \<Longrightarrow> orderly (react (t, Settle res) mount)"
  by (cases res) (simp_all add: orderly_def pending_timerEffect timerEffect_cells react_def
      startSession_def mount_def welcome_message_def, simp_all add: pending_def)

lemma orderly_in_flight: "orderly s \<Longrightarrow> in_flight s \<le> 1"
proof -
  assume "orderly s"
  then have "length (pending s) \<le> 1" by (auto simp: orderly_def)
  moreover have "in_flight s =
      length (filter (\<lambda>(due, c). c = ProcessingDone \<or> c = FollowUpDone) (pending s))"
    unfolding in_flight_def pending_def filter_filter
    by (rule arg_cong [where f = length], rule filter_cong) auto
  moreover have
    "length (filter (\<lambda>(due, c). c = ProcessingDone \<or> c = FollowUpDone) (pending s))
      \<le> length (pending s)"
    by (rule length_filter_le)
  ultimately show ?thesis by linarith
qed

text \<open>
  In such a session the transcript begins with the interviewer and alternates, and at
  most one turn is in flight.
\<close>

lemma started_first_orderly:
  "res \<noteq> NotOk \<Longrightarrow>
   (\<exists>rs. map role (messages (fold react tas (react (t, Settle res) mount))) = Assistant # rs) \<and>
   alternating (map role (messages (fold react tas (react (t, Settle res) mount)))) \<and>
   in_flight (fold react tas (react (t, Settle res) mount)) \<le> 1"
  using orderly_fold [OF orderly_start, of res tas t] orderly_in_flight
  by (auto simp: orderly_def)

text \<open>
  Once the request has settled, or while the transcript is still empty, whatever happens
  leaves the transcript as it is or appends one turn to it.
\<close>

lemma react_appends:
  "\<not> fetchPending s \<or> messages s = [] \<Longrightarrow>
   messages (react ta s) = messages s \<or> (\<exists>m. messages (react ta s) = messages s @ [m])"
  by (auto simp: handlers Let_def
      split: action.splits option.splits response.splits callback.splits)

section \<open>Recording before the session has started\<close>

text \<open>
  Claim C3 on the timelines \<open>late_settle\<close> and \<open>refused_start\<close>. In the first the
  greeting replaces the student's answer at 4.0 s, the interval ticks at 5.0 s, and the
  follow-up of the answer is appended at 5.5 s: the session has an id and its transcript
  is two interviewer turns in a row. In the second no greeting ever arrives and the
  transcript begins with the student.
\<close>

theorem transcript_not_alternating:
  "(\<exists>s. run (late_settle @ [(5000, Timeout), (5500, Timeout)]) mount = Inr s \<and>
        sessionId s = Some ''abc123'' \<and> map role (messages s) = [Assistant, Assistant] \<and>
        \<not> alternating (map role (messages s))) \<and>
   (\<exists>s. run refused_start mount = Inr s \<and> map role (messages s) = [User, Assistant])"
  by (simp add: late_settle_def refused_start_def step_def handlers mount_def
      welcome_message_def toString.simps)

text \<open>
  Claim C4 on the timeline \<open>late_settle\<close>. Before the backend answers, the transcript
  holds the student's turn; the answer sets the transcript to the greeting alone, and the
  student's turn is gone.
\<close>

theorem transcript_overwritten:
  "(\<exists>s. run (butlast late_settle) mount = Inr s \<and>
        messages s = [\<lparr> id' = ''1'', role = User, content = answer_text,
                         timestamp = 3500 \<rparr>]) \<and>
   (\<exists>s. run late_settle mount = Inr s \<and> messages s = [welcome_message 4000] \<and>
        User \<notin> set (map role (messages s)))"
  by (simp add: late_settle_def step_def handlers mount_def welcome_message_def
      toString.simps)

text \<open>
  Claim C7 on the timeline \<open>early_click\<close>. At 5.1 s the follow-up is still in flight,
  but the timer of the greeting has cleared \<open>isAISpeaking\<close> and the record button is
  enabled. A click at 5.2 s starts a recording, and a click at 5.4 s stops it and puts a
  second turn in flight next to the first.
\<close>

theorem overlapping_turns_in_flight:
  "(\<exists>s. run early_click mount = Inr s \<and> in_flight s = 1 \<and> recordEnabled s) \<and>
   (\<exists>s. run (early_click @ [(5200, ClickRecord)]) mount = Inr s \<and>
        in_flight s = 1 \<and> isRecording s) \<and>
   (\<exists>s. run (early_click @ [(5200, ClickRecord), (5400, ClickRecord)]) mount = Inr s \<and>
        in_flight s = 2)"
  by (simp add: early_click_def step_def handlers mount_def in_flight_def toString.simps)

end
